theory Spec2Isabelle
  imports Main
begin

section \<open>Word counter\<close>

text \<open>
  A JavaScript string is a sequence of UTF-16 code units; a code unit is modelled by its
  number. The characters that matter below: 9 tab, 10 line feed, 32 space, 8212 the em
  dash (U+2014).
\<close>

type_synonym jschar = nat
type_synonym jsstring = "jschar list"

definition isWhiteSpace :: "jschar \<Rightarrow> bool" where
  \<comment> \<open>What \<^verbatim>\<open>\s\<close> matches and what \<^verbatim>\<open>trim()\<close> strips: white space and line terminators.\<close>
  "isWhiteSpace c \<longleftrightarrow>
     c \<in> set [9, 10, 11, 12, 13, 32, 160, 5760, 8232, 8233, 8239, 8287, 12288, 65279]
     \<or> (8192 \<le> c \<and> c \<le> 8202)"

definition isNlTab :: "jschar \<Rightarrow> bool" where
  \<comment> \<open>The character class \<^verbatim>\<open>[\n\t]\<close>.\<close>
  "isNlTab c \<longleftrightarrow> c = 10 \<or> c = 9"

definition dashLiteral :: jsstring where
  \<comment> \<open>The literal between the slashes of the first \<^verbatim>\<open>replace\<close> of \<^verbatim>\<open>countWords\<close>, as
      the file stores it: the bytes C3 A2, E2 82 AC, E2 80 9D, that is the three characters
      U+00E2, U+20AC, U+201D (an em dash whose UTF-8 bytes were read as Windows-1252).\<close>
  "dashLiteral = [226, 8364, 8221]"

fun replaceDash :: "jsstring \<Rightarrow> jsstring" where
  \<comment> \<open>\<^verbatim>\<open>text.replace(/<literal>/g, ' ')\<close>: every occurrence, left to right, not overlapping.\<close>
  "replaceDash (a # b # c # cs) =
     (if [a, b, c] = dashLiteral then 32 # replaceDash cs else a # replaceDash (b # c # cs))"
| "replaceDash cs = cs"

function replaceNlTab :: "jsstring \<Rightarrow> jsstring" where
  \<comment> \<open>\<^verbatim>\<open>.replace(/[\n\t]+/g, ' ')\<close>: each maximal run becomes one space.\<close>
  "replaceNlTab [] = []"
| "replaceNlTab (c # cs) =
     (if isNlTab c then 32 # replaceNlTab (dropWhile isNlTab cs) else c # replaceNlTab cs)"
  by pat_completeness auto
termination
  by (relation "measure length") (auto simp: less_Suc_eq_le length_dropWhile_le)

definition trim :: "jsstring \<Rightarrow> jsstring" where
  "trim s = rev (dropWhile isWhiteSpace (rev (dropWhile isWhiteSpace s)))"

function splitWs :: "jsstring \<Rightarrow> jsstring list" where
  \<comment> \<open>\<^verbatim>\<open>.split(/\s+/)\<close>: the pieces between the maximal runs of white space; a string
      without white space is its own single piece, the empty string included.\<close>
  "splitWs s =
     (let tok = takeWhile (\<lambda>c. \<not> isWhiteSpace c) s;
          rest = dropWhile (\<lambda>c. \<not> isWhiteSpace c) s
      in if rest = [] then [tok] else tok # splitWs (dropWhile isWhiteSpace rest))"
  by pat_completeness auto
termination
proof (relation "measure length", goal_cases)
  case 1
  show ?case by simp
next
  case (2 s tok rest)
  then have "dropWhile (\<lambda>c. \<not> isWhiteSpace c) s \<noteq> []"
    by simp
  then obtain c cs where r: "dropWhile (\<lambda>c. \<not> isWhiteSpace c) s = c # cs"
    by (auto simp only: neq_Nil_conv)
  have "isWhiteSpace c"
    using hd_dropWhile [of "\<lambda>c. \<not> isWhiteSpace c" s] r by simp
  then have "length (dropWhile isWhiteSpace (c # cs)) \<le> length cs"
    by (simp add: length_dropWhile_le)
  moreover have "length (c # cs) \<le> length s"
    using length_dropWhile_le [of "\<lambda>c. \<not> isWhiteSpace c" s] r by simp
  ultimately show ?case
    using 2 r by simp
qed

declare splitWs.simps [simp del]

definition countWords :: "jsstring \<Rightarrow> int" where
  "countWords text =
     (let cleaned = replaceNlTab (replaceDash text);
          arr = filter (\<lambda>t. t \<noteq> []) (splitWs (trim cleaned))
      in int (length arr))"


section \<open>Stored records\<close>

text \<open>
  A local date stamp \<^verbatim>\<open>YYYY-MM-DD\<close> names one calendar day; it is modelled by the number of
  that day, counted from 1970-01-01. Two stamps are the same string exactly when they are
  the same day, and \<^verbatim>\<open>new Date(stamp)\<close> of a date-only stamp is midnight UTC of that day.
\<close>

type_synonym dateStamp = int

record TypingTime =
  typingDate :: dateStamp
  time :: int

record SessionStats =
  date :: dateStamp
  words :: int
  minutes :: int
  sprints :: int
  bestSprint :: int

record StreakData =
  count :: int
  streakRecord :: int
  lastDate :: "dateStamp option"

text \<open>
  The object store \<^verbatim>\<open>db.content\<close>, restricted to the three keys \<^verbatim>\<open>wt:typingTime\<close>,
  \<^verbatim>\<open>wt:sessionStats\<close> and \<^verbatim>\<open>wt:streakData\<close>; \<open>None\<close> is a key that is not stored.
  The field \<open>streakRecord\<close> is the source's \<^verbatim>\<open>record\<close>.
\<close>

record Store =
  typingTime :: "TypingTime option"
  sessionStats :: "SessionStats option"
  streakData :: "StreakData option"

definition freshSession :: "dateStamp \<Rightarrow> SessionStats" where
  "freshSession todayStamp =
     \<lparr>date = todayStamp, words = 0, minutes = 0, sprints = 0, bestSprint = 0\<rparr>"

definition defaultStreak :: StreakData where
  "defaultStreak = \<lparr>count = 0, streakRecord = 0, lastDate = None\<rparr>"

definition currentStreakOf :: "Store \<Rightarrow> StreakData" where
  \<comment> \<open>\<^verbatim>\<open>streak?.value || { count: 0, record: 0, lastDate: null }\<close>\<close>
  "currentStreakOf db = (case streakData db of None \<Rightarrow> defaultStreak | Some s \<Rightarrow> s)"

section \<open>Stats ledger\<close>

definition dateMs :: "dateStamp option \<Rightarrow> int" where
  \<comment> \<open>The time value of \<^verbatim>\<open>new Date(x)\<close>: \<^verbatim>\<open>new Date(null)\<close> is the epoch.\<close>
  "dateMs x = (case x of None \<Rightarrow> 0 | Some d \<Rightarrow> d * 86400000)"

definition creditStreak :: "dateStamp \<Rightarrow> StreakData \<Rightarrow> StreakData" where
  \<comment> \<open>The body of the streak branch of \<^verbatim>\<open>updateAllStatsTransaction\<close>;
      \<^verbatim>\<open>diff === 1\<close> is written without the division.\<close>
  "creditStreak todayStamp currentStreak =
     (let last = dateMs (lastDate currentStreak);
          diffIsOne = (dateMs (Some todayStamp) - last = 86400000);
          c = (if diffIsOne then count currentStreak + 1 else 1)
      in currentStreak\<lparr>count := c, lastDate := Some todayStamp,
           streakRecord := max (streakRecord currentStreak) c\<rparr>)"

definition rollSession :: "dateStamp \<Rightarrow> SessionStats option \<Rightarrow> SessionStats" where
  \<comment> \<open>The stored record or the zeroed default, replaced by a zeroed record when its date
      is not today's.\<close>
  "rollSession todayStamp session =
     (let currentSession = (case session of None \<Rightarrow> freshSession todayStamp | Some s \<Rightarrow> s)
      in if date currentSession \<noteq> todayStamp then freshSession todayStamp else currentSession)"

definition typingMinutes :: "TypingTime option \<Rightarrow> int" where
  \<comment> \<open>\<^verbatim>\<open>Math.floor((savedTyping?.value?.time || 0) / 60000)\<close>\<close>
  "typingMinutes savedTyping = (case savedTyping of None \<Rightarrow> 0 | Some t \<Rightarrow> time t) div 60000"

definition updateAllStatsTransaction :: "dateStamp \<Rightarrow> int \<Rightarrow> Store \<Rightarrow> Store" where
  \<comment> \<open>The committed transaction. A transaction that the store aborts writes nothing and
      is caught by the caller; it is the identity on the store and is not modelled.\<close>
  "updateAllStatsTransaction todayStamp gained db =
     (let currentStreak = currentStreakOf db;
          db1 = (if gained > 0 \<and> lastDate currentStreak \<noteq> Some todayStamp
                 then db\<lparr>streakData := Some (creditStreak todayStamp currentStreak)\<rparr>
                 else db);
          currentSession = rollSession todayStamp (sessionStats db);
          mins = typingMinutes (typingTime db)
      in db1\<lparr>sessionStats :=
               Some (currentSession\<lparr>minutes := mins, words := words currentSession + gained\<rparr>)\<rparr>)"

definition registerSprintResult :: "int \<Rightarrow> Store \<Rightarrow> Store" where
  \<comment> \<open>Returns at once when no record is stored; otherwise writes the stored record back
      with the two sprint counters updated. The refresh of the display that follows
      writes nothing.\<close>
  "registerSprintResult gained db =
     (case sessionStats db of
        None \<Rightarrow> db
      | Some session \<Rightarrow>
          db\<lparr>sessionStats :=
               Some (session\<lparr>sprints := sprints session + 1,
                              bestSprint := max (bestSprint session) gained\<rparr>)\<rparr>)"

definition updateSessionStats :: "dateStamp \<Rightarrow> Store \<Rightarrow> SessionStats" where
  \<comment> \<open>The values \<^verbatim>\<open>updateSessionStats\<close> puts on the display; it reads the store and
      writes nothing.\<close>
  "updateSessionStats todayStamp db =
     (rollSession todayStamp (sessionStats db))\<lparr>minutes := typingMinutes (typingTime db)\<rparr>"

fun runTransactions :: "(dateStamp \<times> int) list \<Rightarrow> Store \<Rightarrow> Store" where
  \<comment> \<open>A sequence of transactions, each with the day it runs on and its word delta.\<close>
  "runTransactions [] db = db"
| "runTransactions ((todayStamp, gained) # ts) db =
     runTransactions ts (updateAllStatsTransaction todayStamp gained db)"


section \<open>Sprint manager\<close>

datatype SprintStatus = Idle | Running | Paused | Finished

text \<open>
  The countdown object of the Tock library, as far as the modelled functions look at it:
  it is there or not (\<open>None\<close> is \<^verbatim>\<open>null\<close>). The library is not part of the sources, so
  \<^verbatim>\<open>pause\<close> and \<^verbatim>\<open>resume\<close>, which depend on what its \<^verbatim>\<open>pause()\<close> and \<^verbatim>\<open>lap()\<close> do, are
  left out.
\<close>

datatype Tock = Counting

record SprintState =
  tock :: "Tock option"
  status :: SprintStatus
  durationMs :: int
  startTime :: int
  startWords :: int
  wordsGained :: int

record TypingState =
  burstTimer :: bool
  startTimestamp :: "int option"
  totalTime :: int
  typingStateDate :: dateStamp

text \<open>
  Everything the modelled functions read and write: the text of the editor, the object
  store, the private state of the sprint manager, the class list of the sprint pill,
  \<^verbatim>\<open>appState.typing\<close>, the three word counts of \<^verbatim>\<open>appState\<close>, and whether the timeout
  of \<^verbatim>\<open>debouncedStatsUpdate\<close> is pending. \<open>burstTimer\<close> says whether the burst timeout is
  pending; \<open>typingStateDate\<close> is \<^verbatim>\<open>appState.typing.date\<close>.
\<close>

record World =
  editorValue :: jsstring
  content :: Store
  sprint :: SprintState
  pillClasses :: "string set"
  typing :: TypingState
  lastWordCount :: int
  peakWordCount :: int
  lastSyncedWords :: int
  statsTimer :: bool

definition initialSprint :: SprintState where
  "initialSprint =
     \<lparr>tock = None, status = Idle, durationMs = 0, startTime = 0, startWords = 0,
      wordsGained = 0\<rparr>"

definition updatePillClasses :: "string list \<Rightarrow> string list \<Rightarrow> World \<Rightarrow> World" where
  \<comment> \<open>Removes first, then adds.\<close>
  "updatePillClasses add remove w = w\<lparr>pillClasses := (pillClasses w - set remove) \<union> set add\<rparr>"

definition sprintStart :: "int \<Rightarrow> int \<Rightarrow> int \<Rightarrow> World \<Rightarrow> World" where
  \<comment> \<open>\<^verbatim>\<open>start(minutes, currentWordCount)\<close> at the time \<open>now\<close>; the prior countdown, if any,
      is stopped and a new one is created and started.\<close>
  "sprintStart now mins currentWordCount w =
     updatePillClasses [''running''] [''idle'', ''paused'', ''finished'']
       (w\<lparr>sprint :=
            \<lparr>tock = Some Counting, status = Running, durationMs = max 1 mins * 60000,
             startTime = now, startWords = currentWordCount, wordsGained = 0\<rparr>\<rparr>)"

definition sprintFinish :: "int \<Rightarrow> World \<Rightarrow> World" where
  \<comment> \<open>The \<^verbatim>\<open>complete\<close> callback of the countdown from its second line on; \<open>finalWords\<close> is
      the word count of the editor that its first line takes.\<close>
  "sprintFinish finalWords w =
     (let gained = max 0 (finalWords - startWords (sprint w));
          w1 = w\<lparr>sprint := (sprint w)\<lparr>wordsGained := gained, status := Finished\<rparr>\<rparr>;
          w2 = updatePillClasses [''finished''] [''running'', ''paused''] w1;
          w3 = w2\<lparr>content := registerSprintResult gained (content w2)\<rparr>
      in w3\<lparr>sprint := (sprint w3)\<lparr>tock := None, durationMs := 0\<rparr>\<rparr>)"

definition sprintComplete :: "World \<Rightarrow> World" where
  \<comment> \<open>The \<^verbatim>\<open>complete\<close> callback: the countdown has reached zero.\<close>
  "sprintComplete w = sprintFinish (countWords (editorValue w)) w"

definition flashTimeout :: "World \<Rightarrow> World" where
  \<comment> \<open>The callback that \<^verbatim>\<open>complete\<close> schedules 500 ms ahead.\<close>
  "flashTimeout w = updatePillClasses [] [''finished''] w"

definition sprintReset :: "World \<Rightarrow> World" where
  "sprintReset w =
     updatePillClasses [] [''running'', ''paused'', ''finished'']
       (w\<lparr>sprint := initialSprint\<rparr>)"

definition sprintEnd :: "bool \<Rightarrow> World \<Rightarrow> World" where
  \<comment> \<open>\<^verbatim>\<open>end(userCancelled)\<close> of the sprint manager.\<close>
  "sprintEnd userCancelled w =
     (let gained = max 0 (countWords (editorValue w) - startWords (sprint w));
          w1 = (if \<not> userCancelled \<and> gained > 0
                then w\<lparr>content := registerSprintResult gained (content w)\<rparr> else w)
      in sprintReset w1)"

section \<open>Keystroke path\<close>

definition resetTypingTimeIfNewDay :: "dateStamp \<Rightarrow> World \<Rightarrow> World" where
  "resetTypingTimeIfNewDay today w =
     (if today \<noteq> typingStateDate (typing w)
      then w\<lparr>typing := (typing w)\<lparr>typingStateDate := today, totalTime := 0\<rparr>,
             content := (content w)\<lparr>typingTime := Some \<lparr>typingDate = today, time = 0\<rparr>\<rparr>\<rparr>
      else w)"

definition falsy :: "int option \<Rightarrow> bool" where
  \<comment> \<open>\<^verbatim>\<open>!x\<close> for a value that is \<^verbatim>\<open>null\<close> or a number.\<close>
  "falsy x \<longleftrightarrow> x = None \<or> x = Some 0"

definition onInput :: "jsstring \<Rightarrow> int \<Rightarrow> dateStamp \<Rightarrow> World \<Rightarrow> World" where
  \<comment> \<open>The \<^verbatim>\<open>input\<close> listener of the editor: \<open>text\<close> is the editor's text after the edit,
      \<open>now\<close> the clock and \<open>today\<close> the local day. The refresh of the display and the
      autosave of the text, which it calls last, touch none of the modelled state.\<close>
  "onInput text now today w =
     (let w0 = w\<lparr>editorValue := text\<rparr>;
          w1 = resetTypingTimeIfNewDay today w0;
          t = typing w1;
          w2 = w1\<lparr>typing :=
                    t\<lparr>startTimestamp :=
                         (if falsy (startTimestamp t) then Some now else startTimestamp t),
                      burstTimer := True\<rparr>\<rparr>;
          currentCount = countWords text;
          w3 = (if currentCount > peakWordCount w2
                then w2\<lparr>peakWordCount := currentCount, statsTimer := True\<rparr> else w2)
      in w3\<lparr>lastWordCount := currentCount\<rparr>)"

definition burstTimerFires :: "int \<Rightarrow> World \<Rightarrow> World" where
  \<comment> \<open>The burst timeout, 3000 ms after the last keystroke.\<close>
  "burstTimerFires now w =
     (if \<not> burstTimer (typing w) then w
      else case startTimestamp (typing w) of
        None \<Rightarrow> w\<lparr>typing := (typing w)\<lparr>burstTimer := False\<rparr>\<rparr>
      | Some start \<Rightarrow>
          if start = 0 then w\<lparr>typing := (typing w)\<lparr>burstTimer := False\<rparr>\<rparr>
          else
            (let total = totalTime (typing w) + (now - start)
             in w\<lparr>typing := (typing w)\<lparr>totalTime := total, startTimestamp := None,
                                      burstTimer := False\<rparr>,
                   content := (content w)\<lparr>typingTime :=
                     Some \<lparr>typingDate = typingStateDate (typing w), time = total\<rparr>\<rparr>\<rparr>))"

definition debouncedStatsUpdate :: "dateStamp \<Rightarrow> World \<Rightarrow> World" where
  \<comment> \<open>The function under the 16 ms debounce, run when its timeout fires on the day
      \<open>today\<close>; without a pending timeout nothing runs.\<close>
  "debouncedStatsUpdate today w =
     (if \<not> statsTimer w then w
      else
        (let currentWords = countWords (editorValue w);
             gained = max 0 (currentWords - lastSyncedWords w)
         in if gained > 0
            then w\<lparr>statsTimer := False, lastSyncedWords := currentWords,
                   content := updateAllStatsTransaction today gained (content w)\<rparr>
            else w\<lparr>statsTimer := False\<rparr>))"

datatype Event =
  Input jsstring int dateStamp
| BurstTimer int
| StatsTimer dateStamp

fun step :: "Event \<Rightarrow> World \<Rightarrow> World" where
  "step (Input text now today) w = onInput text now today w"
| "step (BurstTimer now) w = burstTimerFires now w"
| "step (StatsTimer today) w = debouncedStatsUpdate today w"

fun runEvents :: "Event list \<Rightarrow> World \<Rightarrow> World" where
  "runEvents [] w = w"
| "runEvents (e # es) w = runEvents es (step e w)"

fun withinPeak :: "int \<Rightarrow> Event \<Rightarrow> bool" where
  \<comment> \<open>An edit whose word count does not exceed \<open>p\<close>; the timer events always qualify.\<close>
  "withinPeak p (Input text now today) = (countWords text \<le> p)"
| "withinPeak p (BurstTimer now) = True"
| "withinPeak p (StatsTimer today) = True"

fun onDay :: "dateStamp \<Rightarrow> Event \<Rightarrow> bool" where
  \<comment> \<open>A stats update, if the event is one, runs on the day \<open>d\<close>.\<close>
  "onDay d (Input text now today) = True"
| "onDay d (BurstTimer now) = True"
| "onDay d (StatsTimer today) = (today = d)"

definition emptyStore :: Store where
  "emptyStore = \<lparr>typingTime = None, sessionStats = None, streakData = None\<rparr>"

definition freshWorld :: World where
  \<comment> \<open>The application on day 0 with an empty editor and nothing stored.\<close>
  "freshWorld =
     \<lparr>editorValue = [], content = emptyStore, sprint = initialSprint, pillClasses = {},
      typing = \<lparr>burstTimer = False, startTimestamp = None, totalTime = 0, typingStateDate = 0\<rparr>,
      lastWordCount = 0, peakWordCount = 0, lastSyncedWords = 0, statsTimer = False\<rparr>"


section \<open>Example states\<close>

definition exampleStore :: Store where
  \<comment> \<open>What day 9 left behind: 125 seconds of typing, 100 words, two sprints, a streak of
      three days with a record of five.\<close>
  "exampleStore =
     \<lparr>typingTime = Some \<lparr>typingDate = 9, time = 125000\<rparr>,
      sessionStats =
        Some \<lparr>date = 9, words = 100, minutes = 5, sprints = 2, bestSprint = 50\<rparr>,
      streakData = Some \<lparr>count = 3, streakRecord = 5, lastDate = Some 9\<rparr>\<rparr>"

definition zeroedStore :: Store where
  \<comment> \<open>A zeroed record of day 9 and nothing else.\<close>
  "zeroedStore =
     \<lparr>typingTime = None, sessionStats = Some (freshSession 9), streakData = None\<rparr>"

definition exampleWorld :: World where
  \<comment> \<open>The editor holds \<^verbatim>\<open>a b\<close>; two words are the peak and are synced.\<close>
  "exampleWorld =
     freshWorld\<lparr>editorValue := [97, 32, 98], content := exampleStore, lastWordCount := 2,
       peakWordCount := 2, lastSyncedWords := 2\<rparr>"

definition typingWorld :: World where
  \<comment> \<open>Day 9 with the store of that day: the editor holds \<^verbatim>\<open>a b\<close>, two words are the peak
      and are synced, 125 seconds have been typed, no timeout is pending.\<close>
  "typingWorld =
     \<lparr>editorValue = [97, 32, 98], content = exampleStore, sprint = initialSprint,
      pillClasses = {},
      typing = \<lparr>burstTimer = False, startTimestamp = None, totalTime = 125000,
                typingStateDate = 9\<rparr>,
      lastWordCount = 2, peakWordCount = 2, lastSyncedWords = 2, statsTimer = False\<rparr>"

section \<open>Properties of the word counter\<close>

lemma splitWs_Nil: "splitWs [] = [[]]"
  by (simp add: splitWs.simps)

lemma splitWs_Cons:
  "splitWs (c # cs) =
     (if isWhiteSpace c then [] # splitWs (dropWhile isWhiteSpace cs)
      else (case splitWs cs of [] \<Rightarrow> [[c]] | t # ts \<Rightarrow> (c # t) # ts))"
  by (subst splitWs.simps, subst (2) splitWs.simps) (simp add: Let_def)

lemmas countWords_eval =
  countWords_def trim_def splitWs_Nil splitWs_Cons isWhiteSpace_def isNlTab_def
  dashLiteral_def Let_def

lemma replaceDash_whitespace:
  "\<forall>c\<in>set s. isWhiteSpace c \<Longrightarrow> replaceDash s = s"
proof (induction s rule: replaceDash.induct)
  case (1 a b c cs)
  have "\<not> isWhiteSpace 226"
    by (simp add: isWhiteSpace_def)
  with 1 have "a \<noteq> 226"
    by auto
  then have "[a, b, c] \<noteq> dashLiteral"
    by (simp add: dashLiteral_def)
  with 1 show ?case
    by simp
qed simp_all

lemma replaceNlTab_whitespace:
  "\<forall>c\<in>set s. isWhiteSpace c \<Longrightarrow> \<forall>c\<in>set (replaceNlTab s). isWhiteSpace c"
proof (induction s rule: replaceNlTab.induct)
  case 1
  show ?case by simp
next
  case (2 c cs)
  have sp: "isWhiteSpace 32"
    by (simp add: isWhiteSpace_def)
  show ?case
  proof (cases "isNlTab c")
    case True
    have "\<forall>x\<in>set (dropWhile isNlTab cs). isWhiteSpace x"
      using 2(3) set_dropWhileD [of _ isNlTab cs] by auto
    with True 2(1) sp show ?thesis
      by simp
  next
    case False
    with 2 show ?thesis
      by simp
  qed
qed

lemma trim_whitespace:
  assumes "\<forall>c\<in>set s. isWhiteSpace c"
  shows "trim s = []"
proof -
  have a: "dropWhile isWhiteSpace s = []"
    using assms by simp
  show ?thesis
    unfolding trim_def a by simp
qed

text \<open>
  Two facts of the word counter that hold of the code: a text of white space only, the
  empty text included, has no words, and the text of two spaces, \<^verbatim>\<open>a\<close>, three spaces,
  \<^verbatim>\<open>b\<close>, a tab, \<^verbatim>\<open>c\<close>, a line feed, a space, \<^verbatim>\<open>d\<close> and a space has four.
\<close>

lemma countWords_whitespace_only:
  assumes "\<forall>c\<in>set s. isWhiteSpace c"
  shows "countWords s = 0"
proof -
  have "replaceDash s = s"
    using assms by (rule replaceDash_whitespace)
  then have "trim (replaceNlTab (replaceDash s)) = []"
    using assms replaceNlTab_whitespace [of s] trim_whitespace by simp
  then show ?thesis
    by (simp add: countWords_def splitWs_Nil)
qed

lemma countWords_example:
  "countWords [32, 32, 97, 32, 32, 32, 98, 9, 99, 10, 32, 100, 32] = 4"
  by (simp add: countWords_eval)

text \<open>
  The three characters of the stored literal do separate words: \<^verbatim>\<open>a\<close>, U+00E2, U+20AC,
  U+201D, \<^verbatim>\<open>b\<close> counts as two.
\<close>

lemma countWords_stored_literal: "countWords [97, 226, 8364, 8221, 98] = 2"
  by (simp add: countWords_eval)

text \<open>
  C10: the word counter turns em dashes, line feeds and tabs into spaces, trims, splits on
  runs of white space and counts the pieces that are not empty, so that words joined by an
  em dash count separately. The code does not do this for the em dash: the text \<^verbatim>\<open>a\<close>,
  U+2014, \<^verbatim>\<open>b\<close> is counted as one word, because the literal of the first replacement is
  not the em dash but the three characters its bytes give in Windows-1252.
\<close>

theorem em_dash_not_split: "countWords [97, 8212, 98] = 1"
  by (simp add: countWords_eval)


section \<open>Properties of the stats ledger\<close>

lemmas ledger_defs =
  updateAllStatsTransaction_def currentStreakOf_def creditStreak_def rollSession_def
  typingMinutes_def freshSession_def defaultStreak_def dateMs_def Let_def

lemma transaction_typingTime:
  "typingTime (updateAllStatsTransaction today gained db) = typingTime db"
  by (simp add: updateAllStatsTransaction_def Let_def)

lemma transaction_sessionStats:
  "sessionStats (updateAllStatsTransaction today gained db) =
     Some ((rollSession today (sessionStats db))
             \<lparr>minutes := typingMinutes (typingTime db),
              words := words (rollSession today (sessionStats db)) + gained\<rparr>)"
  by (simp add: updateAllStatsTransaction_def Let_def)

lemma transaction_streakData:
  "streakData (updateAllStatsTransaction today gained db) =
     (if gained > 0 \<and> lastDate (currentStreakOf db) \<noteq> Some today
      then Some (creditStreak today (currentStreakOf db)) else streakData db)"
  by (simp add: updateAllStatsTransaction_def Let_def)

lemma transaction_currentStreak:
  "currentStreakOf (updateAllStatsTransaction today gained db) =
     (if gained > 0 \<and> lastDate (currentStreakOf db) \<noteq> Some today
      then creditStreak today (currentStreakOf db) else currentStreakOf db)"
  by (simp add: currentStreakOf_def transaction_streakData)

lemma creditStreak_lastDate: "lastDate (creditStreak today c) = Some today"
  by (simp add: creditStreak_def Let_def)

lemma rollSession_date: "date (rollSession today x) = today"
  by (simp add: rollSession_def freshSession_def Let_def split: option.splits)

lemma rollSession_today: "date s = today \<Longrightarrow> rollSession today (Some s) = s"
  by (simp add: rollSession_def Let_def)

subsection \<open>Streak credit\<close>

text \<open>
  A streak that has no last date has the count 0. The default has, and every streak the
  transaction stores carries the day it was stored on; the transaction is the only writer
  of the key (the reset of the streak removes it), so this holds of every streak the
  transaction ever reads.
\<close>

lemma undated_streak_default:
  "streakData db = None \<Longrightarrow>
     lastDate (currentStreakOf db) = None \<and> count (currentStreakOf db) = 0"
  by (simp add: currentStreakOf_def defaultStreak_def)

lemma undated_streak_preserved:
  assumes "lastDate (currentStreakOf db) = None \<longrightarrow> count (currentStreakOf db) = 0"
  shows "lastDate (currentStreakOf (updateAllStatsTransaction today gained db)) = None \<longrightarrow>
         count (currentStreakOf (updateAllStatsTransaction today gained db)) = 0"
  using assms by (simp add: transaction_currentStreak creditStreak_lastDate)

text \<open>
  Why it matters: \<^verbatim>\<open>new Date(null)\<close> is 1970-01-01, so on 1970-01-02 a streak without a
  last date is taken to continue. From the count 0 that gives 1 all the same; from a
  count of 5, which no run stores, it would give 6.
\<close>

lemma undated_streak_epoch:
  "streakData (updateAllStatsTransaction 1 1
     (emptyStore\<lparr>streakData := Some \<lparr>count = 5, streakRecord = 5, lastDate = None\<rparr>\<rparr>)) =
     Some \<lparr>count = 6, streakRecord = 6, lastDate = Some 1\<rparr>"
  by (simp add: emptyStore_def updateAllStatsTransaction_def currentStreakOf_def
        creditStreak_def dateMs_def Let_def)

text \<open>
  C1: when the transaction runs with a positive word delta and the last date of the streak
  is not today, the count becomes the old count plus one if the last date is the day before
  today, and 1 otherwise (no last date, a gap of two days or more, a last date in the
  future); the last date becomes today, the record becomes the larger of the old record
  and the new count, and the streak is stored. The streak read is one the transaction can
  meet: it has a last date or the count 0 (or the day is not 1970-01-02).
\<close>

theorem streak_credit:
  assumes "0 < gained"
    and "lastDate (currentStreakOf db) \<noteq> Some today"
    and "lastDate (currentStreakOf db) = None \<longrightarrow> count (currentStreakOf db) = 0 \<or> today \<noteq> 1"
  shows "streakData (updateAllStatsTransaction today gained db) =
         Some \<lparr>count = (if lastDate (currentStreakOf db) = Some (today - 1)
                         then count (currentStreakOf db) + 1 else 1),
               streakRecord = max (streakRecord (currentStreakOf db))
                        (if lastDate (currentStreakOf db) = Some (today - 1)
                         then count (currentStreakOf db) + 1 else 1),
               lastDate = Some today\<rparr>"
  using assms by (auto simp: ledger_defs split: option.splits)

theorem streak_credit_witness:
  "streakData (updateAllStatsTransaction 10 2 exampleStore) =
     Some \<lparr>count = 4, streakRecord = 5, lastDate = Some 10\<rparr>"
  using streak_credit [of 2 exampleStore 10]
  by (simp add: exampleStore_def currentStreakOf_def)

text \<open>The other example of the specification: three days after the last date the count is 1.\<close>

lemma streak_restart_example:
  "streakData (updateAllStatsTransaction 12 2 exampleStore) =
     Some \<lparr>count = 1, streakRecord = 5, lastDate = Some 12\<rparr>"
  by (simp add: exampleStore_def ledger_defs)

text \<open>
  C2: when the last date of the stored streak is today, any number of transactions on that
  day, whatever their word deltas, leave the stored streak as it is: count, record and last
  date are unchanged.
\<close>

lemma same_day_step:
  assumes "streakData db = Some s" and "lastDate s = Some today"
  shows "streakData (updateAllStatsTransaction today gained db) = Some s"
  using assms by (simp add: transaction_streakData currentStreakOf_def)

theorem same_day_idempotent:
  assumes "streakData db = Some s" and "lastDate s = Some today"
  shows "streakData (runTransactions (map (\<lambda>g. (today, g)) gains) db) = Some s"
  using assms
proof (induction gains arbitrary: db)
  case Nil
  then show ?case by simp
next
  case (Cons g gains)
  from Cons.prems have "streakData (updateAllStatsTransaction today g db) = Some s"
    by (rule same_day_step)
  then show ?case
    using Cons.IH Cons.prems(2) by simp
qed

theorem same_day_idempotent_witness:
  "streakData (runTransactions [(9, 4), (9, 7)] exampleStore) =
     Some \<lparr>count = 3, streakRecord = 5, lastDate = Some 9\<rparr>"
  using same_day_idempotent
    [of exampleStore "\<lparr>count = 3, streakRecord = 5, lastDate = Some 9\<rparr>" 9 "[4, 7]"]
  by (simp add: exampleStore_def)

text \<open>
  From any store, any number of transactions on one day credit the streak at most once:
  the streak they leave is the one they found or that one credited once.
\<close>

lemma same_day_current:
  assumes "lastDate (currentStreakOf db) = Some today"
  shows "currentStreakOf (runTransactions (map (\<lambda>g. (today, g)) gains) db)
     = currentStreakOf db"
  using assms
proof (induction gains arbitrary: db)
  case Nil
  show ?case by simp
next
  case (Cons g gains)
  then have "currentStreakOf (updateAllStatsTransaction today g db) = currentStreakOf db"
    by (simp add: transaction_currentStreak)
  with Cons show ?case
    by simp
qed

lemma same_day_at_most_once:
  "currentStreakOf (runTransactions (map (\<lambda>g. (today, g)) gains) db) = currentStreakOf db
   \<or> currentStreakOf (runTransactions (map (\<lambda>g. (today, g)) gains) db)
     = creditStreak today (currentStreakOf db)"
proof (induction gains arbitrary: db)
  case Nil
  show ?case by simp
next
  case (Cons g gains)
  let ?db = "updateAllStatsTransaction today g db"
  show ?case
  proof (cases "g > 0 \<and> lastDate (currentStreakOf db) \<noteq> Some today")
    case True
    then have c: "currentStreakOf ?db = creditStreak today (currentStreakOf db)"
      by (simp add: transaction_currentStreak)
    then have "lastDate (currentStreakOf ?db) = Some today"
      by (simp add: creditStreak_lastDate)
    then have "currentStreakOf (runTransactions (map (\<lambda>g. (today, g)) gains) ?db)
        = currentStreakOf ?db"
      by (rule same_day_current)
    with c show ?thesis
      by simp
  next
    case False
    then have "currentStreakOf ?db = currentStreakOf db"
      by (auto simp: transaction_currentStreak)
    with Cons.IH [of ?db] show ?thesis
      by simp
  qed
qed

text \<open>
  C4: over every sequence of transactions the record of the streak does not decrease, and
  if the record was at least the count before the sequence, it is at least the count after
  it. Here the streak of a store is the stored one, or the default when none is stored.
\<close>

lemma record_step:
  "streakRecord (currentStreakOf db)
     \<le> streakRecord (currentStreakOf (updateAllStatsTransaction today gained db))"
  by (simp add: transaction_currentStreak creditStreak_def Let_def)

lemma record_bounds_count_step:
  assumes "count (currentStreakOf db) \<le> streakRecord (currentStreakOf db)"
  shows "count (currentStreakOf (updateAllStatsTransaction today gained db))
     \<le> streakRecord (currentStreakOf (updateAllStatsTransaction today gained db))"
  using assms by (simp add: transaction_currentStreak creditStreak_def Let_def)

theorem record_monotone:
  "streakRecord (currentStreakOf db) \<le> streakRecord (currentStreakOf (runTransactions ts db))
   \<and> (count (currentStreakOf db) \<le> streakRecord (currentStreakOf db) \<longrightarrow>
        count (currentStreakOf (runTransactions ts db))
          \<le> streakRecord (currentStreakOf (runTransactions ts db)))"
proof (induction ts arbitrary: db)
  case Nil
  show ?case by simp
next
  case (Cons t ts)
  obtain today gained where t: "t = (today, gained)"
    by (cases t)
  let ?db = "updateAllStatsTransaction today gained db"
  have "streakRecord (currentStreakOf db) \<le> streakRecord (currentStreakOf ?db)"
    by (rule record_step)
  moreover have "count (currentStreakOf db) \<le> streakRecord (currentStreakOf db) \<Longrightarrow>
      count (currentStreakOf ?db) \<le> streakRecord (currentStreakOf ?db)"
    by (rule record_bounds_count_step)
  ultimately show ?case
    using Cons.IH [of ?db] t by auto
qed

theorem record_monotone_witness:
  "streakRecord (currentStreakOf exampleStore)
     \<le> streakRecord (currentStreakOf
          (runTransactions [(10, 2), (11, 1), (12, 3), (20, 1)] exampleStore))
   \<and> count (currentStreakOf
          (runTransactions [(10, 2), (11, 1), (12, 3), (20, 1)] exampleStore)) = 1
   \<and> streakRecord (currentStreakOf
          (runTransactions [(10, 2), (11, 1), (12, 3), (20, 1)] exampleStore)) = 6"
  using record_monotone [of exampleStore "[(10, 2), (11, 1), (12, 3), (20, 1)]"]
  by (simp add: exampleStore_def ledger_defs)

subsection \<open>Session record\<close>

text \<open>
  The transaction does replace a record of another day by a zeroed one before it adds the
  word delta.
\<close>

lemma rollover_transaction:
  assumes "sessionStats db = Some s" and "date s \<noteq> today"
  shows "sessionStats (updateAllStatsTransaction today gained db) =
         Some ((freshSession today)
                 \<lparr>minutes := typingMinutes (typingTime db), words := gained\<rparr>)"
  using assms by (simp add: transaction_sessionStats rollSession_def freshSession_def)

text \<open>
  C3: both the transaction and \<^verbatim>\<open>registerSprintResult\<close> replace a stored session record of
  another day by a zeroed record before they update it. \<^verbatim>\<open>registerSprintResult\<close> does
  not: whatever the day, it counts the sprint into the stored record and keeps the record's
  date and its other counters. With the record of day 9 stored, a sprint of 30 words
  registered on day 10 gives three sprints on day 9, not one sprint on day 10, and the
  display of day 10, which does roll the record over, shows no sprint.
\<close>

theorem stale_sprint_result:
  "sessionStats (registerSprintResult 30 exampleStore) =
     Some \<lparr>date = 9, words = 100, minutes = 5, sprints = 3, bestSprint = 50\<rparr>
   \<and> sessionStats (registerSprintResult 30 exampleStore) \<noteq>
     Some ((freshSession 10)\<lparr>sprints := 1, bestSprint := 30\<rparr>)
   \<and> sprints (updateSessionStats 10 (registerSprintResult 30 exampleStore)) = 0"
  by (simp add: registerSprintResult_def exampleStore_def updateSessionStats_def
        rollSession_def freshSession_def)

text \<open>
  C8: from a stored record of today with no words, two transactions on that day with the
  deltas \<open>g1\<close> and \<open>g2\<close> leave \<open>g1 + g2\<close> words, and the store they leave does not depend on
  their order.
\<close>

lemma transaction_twice_sessionStats:
  "sessionStats (updateAllStatsTransaction today g2 (updateAllStatsTransaction today g1 db)) =
     Some ((rollSession today (sessionStats db))
             \<lparr>minutes := typingMinutes (typingTime db),
              words := words (rollSession today (sessionStats db)) + g1 + g2\<rparr>)"
  by (simp add: transaction_sessionStats [of today g2] transaction_typingTime)
     (simp add: transaction_sessionStats rollSession_today rollSession_date)

lemma transaction_twice_streakData:
  "streakData (updateAllStatsTransaction today g2 (updateAllStatsTransaction today g1 db)) =
     (if (g1 > 0 \<or> g2 > 0) \<and> lastDate (currentStreakOf db) \<noteq> Some today
      then Some (creditStreak today (currentStreakOf db)) else streakData db)"
  by (auto simp: transaction_streakData transaction_currentStreak creditStreak_lastDate)

lemma transaction_commute:
  "updateAllStatsTransaction today g2 (updateAllStatsTransaction today g1 db)
     = updateAllStatsTransaction today g1 (updateAllStatsTransaction today g2 db)"
proof (rule Store.equality)
  show "typingTime (updateAllStatsTransaction today g2 (updateAllStatsTransaction today g1 db))
      = typingTime (updateAllStatsTransaction today g1 (updateAllStatsTransaction today g2 db))"
    by (simp add: transaction_typingTime)
  show "sessionStats (updateAllStatsTransaction today g2 (updateAllStatsTransaction today g1 db))
      = sessionStats (updateAllStatsTransaction today g1 (updateAllStatsTransaction today g2 db))"
    by (simp add: transaction_twice_sessionStats add.commute add.left_commute)
  show "streakData (updateAllStatsTransaction today g2 (updateAllStatsTransaction today g1 db))
      = streakData (updateAllStatsTransaction today g1 (updateAllStatsTransaction today g2 db))"
    by (simp add: transaction_twice_streakData disj_commute)
qed simp

theorem words_additive:
  assumes "0 \<le> g1" and "0 \<le> g2"
    and "sessionStats db = Some s" and "date s = today" and "words s = 0"
  shows "(\<exists>s'. sessionStats (updateAllStatsTransaction today g2
                  (updateAllStatsTransaction today g1 db)) = Some s' \<and> words s' = g1 + g2)
       \<and> updateAllStatsTransaction today g2 (updateAllStatsTransaction today g1 db)
         = updateAllStatsTransaction today g1 (updateAllStatsTransaction today g2 db)"
  using assms transaction_commute [of today g2 g1 db]
  by (simp add: transaction_twice_sessionStats rollSession_today)

theorem words_additive_witness:
  "(\<exists>s'. sessionStats (updateAllStatsTransaction 9 4 (updateAllStatsTransaction 9 3 zeroedStore))
           = Some s' \<and> words s' = 3 + 4)
   \<and> updateAllStatsTransaction 9 4 (updateAllStatsTransaction 9 3 zeroedStore)
     = updateAllStatsTransaction 9 3 (updateAllStatsTransaction 9 4 zeroedStore)"
  by (rule words_additive [of 3 4 zeroedStore "freshSession 9" 9])
     (simp_all add: zeroedStore_def freshSession_def)


section \<open>Properties of the sprint manager\<close>

lemmas sprint_defs =
  sprintStart_def sprintFinish_def sprintComplete_def flashTimeout_def sprintReset_def
  sprintEnd_def updatePillClasses_def initialSprint_def Let_def

text \<open>
  Whatever the state in which the countdown completes, the status is \<open>Finished\<close> after the
  delayed callback has run: the callback takes the class \<^verbatim>\<open>finished\<close> off the pill and
  leaves the status alone.
\<close>

lemma finished_after_flash: "status (sprint (flashTimeout (sprintComplete w))) = Finished"
  by (simp add: sprint_defs)

text \<open>
  C5: when the countdown reaches zero the status goes from running to finished and, after
  the short delay, from finished to idle. The code makes the first move only: after
  \<^verbatim>\<open>start(25, 500)\<close>, completion at 650 words and the delayed callback, the status is still
  \<open>Finished\<close>, although the pill no longer shows it.
\<close>

theorem sprint_stays_finished:
  "status (sprint (sprintStart 1000 25 500 freshWorld)) = Running
   \<and> status (sprint (flashTimeout (sprintFinish 650 (sprintStart 1000 25 500 freshWorld))))
       = Finished
   \<and> ''finished'' \<notin>
       pillClasses (flashTimeout (sprintFinish 650 (sprintStart 1000 25 500 freshWorld)))"
  by (simp add: sprint_defs freshWorld_def)

text \<open>
  C6, as the specification states it: on natural completion the counter \<open>sprints\<close> goes up
  by one. With no session record stored it does not: after \<^verbatim>\<open>start(25, 500)\<close> and completion
  at 650 words over an empty store, there is still no record, and the display shows no
  sprint.
\<close>

theorem sprint_unregistered:
  "sessionStats (content (sprintFinish 650 (sprintStart 1000 25 500 freshWorld))) = None
   \<and> sprints (updateSessionStats 0
        (content (sprintFinish 650 (sprintStart 1000 25 500 freshWorld)))) = 0"
  by (simp add: sprint_defs freshWorld_def emptyStore_def registerSprintResult_def
        updateSessionStats_def rollSession_def freshSession_def)

text \<open>
  C6, amended: on natural completion the words gained are the word count of the editor
  minus the word count at the start, and 0 if that is negative; after \<^verbatim>\<open>start(25, 500)\<close> and
  650 words at completion they are 150. If a session record is stored, its \<open>sprints\<close> goes up
  by exactly one and its \<open>bestSprint\<close> becomes the larger of its old value and the words
  gained; if none is stored, the store is left as it is.
\<close>

theorem sprint_accounting:
  "wordsGained (sprint (sprintComplete w))
     = max 0 (countWords (editorValue w) - startWords (sprint w))
   \<and> (sessionStats (content w) = None \<longrightarrow> content (sprintComplete w) = content w)
   \<and> (\<forall>s. sessionStats (content w) = Some s \<longrightarrow>
         sessionStats (content (sprintComplete w)) =
           Some (s\<lparr>sprints := sprints s + 1,
                   bestSprint := max (bestSprint s)
                     (max 0 (countWords (editorValue w) - startWords (sprint w)))\<rparr>))
   \<and> wordsGained (sprint (sprintFinish 650 (sprintStart now 25 500 w))) = 150"
  by (simp add: sprint_defs registerSprintResult_def)

theorem sprint_accounting_witness:
  "sessionStats (content (sprintComplete (sprintStart 1000 25 0 exampleWorld))) =
     Some \<lparr>date = 9, words = 100, minutes = 5, sprints = 3, bestSprint = 50\<rparr>
   \<and> wordsGained (sprint (sprintComplete (sprintStart 1000 25 0 exampleWorld))) = 2"
  using sprint_accounting [of "sprintStart 1000 25 0 exampleWorld"]
  by (simp add: sprintStart_def updatePillClasses_def exampleWorld_def freshWorld_def
        exampleStore_def countWords_eval)

text \<open>
  C7: \<^verbatim>\<open>end\<close> with \<^verbatim>\<open>userCancelled = true\<close> registers nothing. From every state, whatever the
  editor holds, it leaves the store as it is, and with it the stored \<open>sprints\<close> and
  \<open>bestSprint\<close>; the sprint state is the initial, idle one.
\<close>

theorem cancel_discards:
  "content (sprintEnd True w) = content w \<and> sprint (sprintEnd True w) = initialSprint"
  by (simp add: sprint_defs)

section \<open>Properties of the keystroke path\<close>

lemma onInput_statsTimer:
  "statsTimer (onInput s now today w) = (statsTimer w \<or> countWords s > peakWordCount w)"
  by (simp add: onInput_def resetTypingTimeIfNewDay_def Let_def)

lemma onInput_peak:
  "peakWordCount (onInput s now today w) = max (peakWordCount w) (countWords s)"
  by (simp add: onInput_def resetTypingTimeIfNewDay_def Let_def)

lemma onInput_synced:
  "lastSyncedWords (onInput s now today w) = lastSyncedWords w
   \<and> editorValue (onInput s now today w) = s"
  by (simp add: onInput_def resetTypingTimeIfNewDay_def Let_def)

lemma onInput_store:
  "sessionStats (content (onInput s now today w)) = sessionStats (content w)
   \<and> streakData (content (onInput s now today w)) = streakData (content w)"
  by (simp add: onInput_def resetTypingTimeIfNewDay_def Let_def)

lemma burst_frame:
  "statsTimer (burstTimerFires now w) = statsTimer w
   \<and> peakWordCount (burstTimerFires now w) = peakWordCount w
   \<and> lastSyncedWords (burstTimerFires now w) = lastSyncedWords w
   \<and> editorValue (burstTimerFires now w) = editorValue w
   \<and> sessionStats (content (burstTimerFires now w)) = sessionStats (content w)
   \<and> streakData (content (burstTimerFires now w)) = streakData (content w)"
  by (simp add: burstTimerFires_def Let_def split: option.splits)

lemma stats_idle: "\<not> statsTimer w \<Longrightarrow> debouncedStatsUpdate today w = w"
  by (simp add: debouncedStatsUpdate_def)

lemma stats_frame:
  "\<not> statsTimer (debouncedStatsUpdate today w)
   \<and> peakWordCount (debouncedStatsUpdate today w) = peakWordCount w
   \<and> editorValue (debouncedStatsUpdate today w) = editorValue w"
  by (simp add: debouncedStatsUpdate_def Let_def)

lemma stats_synced:
  "lastSyncedWords (debouncedStatsUpdate today w) =
     (if statsTimer w \<and> lastSyncedWords w < countWords (editorValue w)
      then countWords (editorValue w) else lastSyncedWords w)"
  by (simp add: debouncedStatsUpdate_def Let_def)

lemma stats_session:
  "sessionStats (content (debouncedStatsUpdate today w)) =
     (if statsTimer w \<and> lastSyncedWords w < countWords (editorValue w)
      then Some ((rollSession today (sessionStats (content w)))
             \<lparr>minutes := typingMinutes (typingTime (content w)),
              words := words (rollSession today (sessionStats (content w)))
                + max 0 (countWords (editorValue w) - lastSyncedWords w)\<rparr>)
      else sessionStats (content w))"
  by (simp add: debouncedStatsUpdate_def Let_def transaction_sessionStats)

subsection \<open>Edits at or below the peak\<close>

lemma step_within_peak:
  assumes "\<not> statsTimer w" and "withinPeak (peakWordCount w) e"
  shows "\<not> statsTimer (step e w) \<and> peakWordCount (step e w) = peakWordCount w
       \<and> lastSyncedWords (step e w) = lastSyncedWords w
       \<and> sessionStats (content (step e w)) = sessionStats (content w)
       \<and> streakData (content (step e w)) = streakData (content w)"
proof (cases e)
  case (Input s now today)
  with assms show ?thesis
    by (simp add: onInput_statsTimer onInput_peak onInput_store onInput_synced)
next
  case (BurstTimer now)
  with assms show ?thesis
    by (simp add: burst_frame)
next
  case (StatsTimer today)
  with assms show ?thesis
    by (simp add: stats_idle)
qed

lemma run_within_peak:
  assumes "\<not> statsTimer w" and "\<forall>e\<in>set es. withinPeak (peakWordCount w) e"
  shows "sessionStats (content (runEvents es w)) = sessionStats (content w)
       \<and> streakData (content (runEvents es w)) = streakData (content w)
       \<and> peakWordCount (runEvents es w) = peakWordCount w
       \<and> lastSyncedWords (runEvents es w) = lastSyncedWords w"
  using assms
proof (induction es arbitrary: w)
  case Nil
  show ?case by simp
next
  case (Cons e es)
  then have "withinPeak (peakWordCount w) e"
    by simp
  with Cons.prems(1) have st:
    "\<not> statsTimer (step e w) \<and> peakWordCount (step e w) = peakWordCount w
       \<and> lastSyncedWords (step e w) = lastSyncedWords w
       \<and> sessionStats (content (step e w)) = sessionStats (content w)
       \<and> streakData (content (step e w)) = streakData (content w)"
    by (rule step_within_peak)
  with Cons.prems(2) have "\<forall>x\<in>set es. withinPeak (peakWordCount (step e w)) x"
    by simp
  with st Cons.IH [of "step e w"] show ?case
    by simp
qed

subsection \<open>Words of the day against synced words\<close>

text \<open>
  While the stored record is today's, every event of the keystroke path adds to the words
  of the day exactly what it adds to the last synced count.
\<close>

lemma step_accounting:
  assumes "sessionStats (content w) = Some r" and "date r = d" and "onDay d e"
  shows "\<exists>r'. sessionStats (content (step e w)) = Some r' \<and> date r' = d
           \<and> words r' - lastSyncedWords (step e w) = words r - lastSyncedWords w"
proof (cases e)
  case (Input s now today)
  with assms show ?thesis
    by (simp add: onInput_store onInput_synced)
next
  case (BurstTimer now)
  with assms show ?thesis
    by (simp add: burst_frame)
next
  case (StatsTimer today)
  with assms have "rollSession today (sessionStats (content w)) = r"
    by (simp add: rollSession_today)
  with StatsTimer assms show ?thesis
    by (simp add: stats_session stats_synced)
qed

lemma run_accounting:
  assumes "sessionStats (content w) = Some r" and "date r = d"
    and "\<forall>e\<in>set es. onDay d e"
  shows "\<exists>r'. sessionStats (content (runEvents es w)) = Some r' \<and> date r' = d
           \<and> words r' - lastSyncedWords (runEvents es w) = words r - lastSyncedWords w"
  using assms
proof (induction es arbitrary: w r)
  case Nil
  then show ?case by simp
next
  case (Cons e es)
  then have "onDay d e"
    by simp
  with Cons.prems(1,2) obtain r1 where r1:
    "sessionStats (content (step e w)) = Some r1" "date r1 = d"
    "words r1 - lastSyncedWords (step e w) = words r - lastSyncedWords w"
    using step_accounting [of w r d e] by auto
  from Cons.prems(3) have "\<forall>x\<in>set es. onDay d x"
    by simp
  with r1 Cons.IH [of "step e w" r1] show ?case
    by simp
qed

text \<open>
  The synced count and the word count of the editor stay at or below the peak, and the
  peak does not go down.
\<close>

lemma step_bounds:
  assumes "countWords (editorValue w) \<le> peakWordCount w"
    and "lastSyncedWords w \<le> peakWordCount w"
  shows "countWords (editorValue (step e w)) \<le> peakWordCount (step e w)
       \<and> lastSyncedWords (step e w) \<le> peakWordCount (step e w)
       \<and> peakWordCount w \<le> peakWordCount (step e w)"
proof (cases e)
  case (Input s now today)
  with assms show ?thesis
    by (simp add: onInput_peak onInput_synced)
next
  case (BurstTimer now)
  with assms show ?thesis
    by (simp add: burst_frame)
next
  case (StatsTimer today)
  with assms show ?thesis
    by (simp add: stats_frame stats_synced)
qed

lemma run_bounds:
  assumes "countWords (editorValue w) \<le> peakWordCount w"
    and "lastSyncedWords w \<le> peakWordCount w"
  shows "lastSyncedWords (runEvents es w) \<le> peakWordCount (runEvents es w)
       \<and> peakWordCount w \<le> peakWordCount (runEvents es w)"
  using assms
proof (induction es arbitrary: w)
  case Nil
  then show ?case by simp
next
  case (Cons e es)
  then have st: "countWords (editorValue (step e w)) \<le> peakWordCount (step e w)
       \<and> lastSyncedWords (step e w) \<le> peakWordCount (step e w)
       \<and> peakWordCount w \<le> peakWordCount (step e w)"
    using step_bounds [of w e] by simp
  with Cons.IH [of "step e w"] show ?case
    by auto
qed

text \<open>
  C9: on the keystroke path the stats update is armed exactly when the word count of an
  edit is above the peak seen so far, and the edit raises the peak to that count. When the
  armed update runs it applies the transaction with the editor's word count minus the last
  synced count, cut off at 0, if that is positive, and records the editor's word count as
  synced; otherwise it changes neither the record nor the synced count. So with no update
  armed, edits that stay at or below the peak, with the timers firing among them at any
  time, leave the stored record, the streak, the peak and the synced count as they are:
  words deleted and typed again add nothing. And over any run of events on the day of the
  stored record, the words of the day grow by exactly what the synced count grows, which
  stays at or below the peak.
\<close>

theorem stats_only_above_peak:
  "statsTimer (onInput s now today w) = (statsTimer w \<or> countWords s > peakWordCount w)
   \<and> peakWordCount (onInput s now today w) = max (peakWordCount w) (countWords s)
   \<and> lastSyncedWords (onInput s now today w) = lastSyncedWords w
   \<and> sessionStats (content (onInput s now today w)) = sessionStats (content w)
   \<and> \<not> statsTimer (debouncedStatsUpdate today w)
   \<and> lastSyncedWords (debouncedStatsUpdate today w) =
       (if statsTimer w \<and> lastSyncedWords w < countWords (editorValue w)
        then countWords (editorValue w) else lastSyncedWords w)
   \<and> sessionStats (content (debouncedStatsUpdate today w)) =
       (if statsTimer w \<and> lastSyncedWords w < countWords (editorValue w)
        then Some ((rollSession today (sessionStats (content w)))
               \<lparr>minutes := typingMinutes (typingTime (content w)),
                words := words (rollSession today (sessionStats (content w)))
                  + max 0 (countWords (editorValue w) - lastSyncedWords w)\<rparr>)
        else sessionStats (content w))
   \<and> (\<not> statsTimer w \<longrightarrow> (\<forall>e\<in>set es. withinPeak (peakWordCount w) e) \<longrightarrow>
        sessionStats (content (runEvents es w)) = sessionStats (content w)
        \<and> streakData (content (runEvents es w)) = streakData (content w)
        \<and> peakWordCount (runEvents es w) = peakWordCount w
        \<and> lastSyncedWords (runEvents es w) = lastSyncedWords w)
   \<and> (\<forall>r. sessionStats (content w) = Some r \<longrightarrow> (\<forall>e\<in>set es. onDay (date r) e) \<longrightarrow>
        (\<exists>r'. sessionStats (content (runEvents es w)) = Some r' \<and> date r' = date r
           \<and> words r' - words r = lastSyncedWords (runEvents es w) - lastSyncedWords w))
   \<and> (countWords (editorValue w) \<le> peakWordCount w \<longrightarrow>
      lastSyncedWords w \<le> peakWordCount w \<longrightarrow>
        lastSyncedWords (runEvents es w) \<le> peakWordCount (runEvents es w)
        \<and> peakWordCount w \<le> peakWordCount (runEvents es w))"
proof -
  have acc: "\<forall>r. sessionStats (content w) = Some r \<longrightarrow> (\<forall>e\<in>set es. onDay (date r) e) \<longrightarrow>
        (\<exists>r'. sessionStats (content (runEvents es w)) = Some r' \<and> date r' = date r
           \<and> words r' - words r = lastSyncedWords (runEvents es w) - lastSyncedWords w)"
  proof (intro allI impI)
    fix r
    assume "sessionStats (content w) = Some r" and "\<forall>e\<in>set es. onDay (date r) e"
    then obtain r' where "sessionStats (content (runEvents es w)) = Some r'"
      "date r' = date r"
      "words r' - lastSyncedWords (runEvents es w) = words r - lastSyncedWords w"
      using run_accounting [of w r "date r" es] by auto
    then show "\<exists>r'. sessionStats (content (runEvents es w)) = Some r' \<and> date r' = date r
           \<and> words r' - words r = lastSyncedWords (runEvents es w) - lastSyncedWords w"
      by auto
  qed
  show ?thesis
    using run_within_peak [of w es] run_bounds [of w es] acc
    by (simp add: onInput_statsTimer onInput_peak onInput_synced onInput_store stats_frame
          stats_synced stats_session)
qed

theorem stats_only_above_peak_witness:
  "sessionStats (content (runEvents
      [Input [97] 5000 9, Input [97, 32, 98] 6000 9, StatsTimer 9, BurstTimer 9000]
      typingWorld))
     = Some \<lparr>date = 9, words = 100, minutes = 5, sprints = 2, bestSprint = 50\<rparr>
   \<and> peakWordCount (runEvents
      [Input [97] 5000 9, Input [97, 32, 98] 6000 9, StatsTimer 9, BurstTimer 9000]
      typingWorld) = 2
   \<and> lastSyncedWords (runEvents
      [Input [97] 5000 9, Input [97, 32, 98] 6000 9, StatsTimer 9, BurstTimer 9000]
      typingWorld) = 2
   \<and> statsTimer (onInput [97, 32, 98, 32, 99] 7000 9 typingWorld)
   \<and> peakWordCount (onInput [97, 32, 98, 32, 99] 7000 9 typingWorld) = 3
   \<and> sessionStats (content
        (debouncedStatsUpdate 9 (onInput [97, 32, 98, 32, 99] 7000 9 typingWorld)))
     = Some \<lparr>date = 9, words = 101, minutes = 2, sprints = 2, bestSprint = 50\<rparr>
   \<and> lastSyncedWords
        (debouncedStatsUpdate 9 (onInput [97, 32, 98, 32, 99] 7000 9 typingWorld)) = 3
   \<and> sessionStats (content (runEvents
      [Input [97, 32, 98, 32, 99] 7000 9, StatsTimer 9, Input [97] 8000 9,
       Input [97, 32, 98, 32, 99] 9000 9, StatsTimer 9, BurstTimer 12000]
      typingWorld))
     = Some \<lparr>date = 9, words = 101, minutes = 2, sprints = 2, bestSprint = 50\<rparr>
   \<and> lastSyncedWords (runEvents
      [Input [97, 32, 98, 32, 99] 7000 9, StatsTimer 9, Input [97] 8000 9,
       Input [97, 32, 98, 32, 99] 9000 9, StatsTimer 9, BurstTimer 12000]
      typingWorld) = 3
   \<and> peakWordCount (runEvents
      [Input [97, 32, 98, 32, 99] 7000 9, StatsTimer 9, Input [97] 8000 9,
       Input [97, 32, 98, 32, 99] 9000 9, StatsTimer 9, BurstTimer 12000]
      typingWorld) = 3"
proof -
  let ?low = "[Input [97] 5000 9, Input [97, 32, 98] 6000 9, StatsTimer 9, BurstTimer 9000]"
  let ?high = "[Input [97, 32, 98, 32, 99] 7000 9, StatsTimer 9, Input [97] 8000 9,
       Input [97, 32, 98, 32, 99] 9000 9, StatsTimer 9, BurstTimer 12000]"
  let ?w = "onInput [97, 32, 98, 32, 99] 7000 9 typingWorld"
  have c1: "countWords [97] = 1" and c2: "countWords [97, 32, 98] = 2"
    and c3: "countWords [97, 32, 98, 32, 99] = 3"
    by (simp_all add: countWords_eval)
  have idle: "\<not> statsTimer typingWorld" and peak: "peakWordCount typingWorld = 2"
    and synced: "lastSyncedWords typingWorld = 2"
    and editor: "countWords (editorValue typingWorld) = 2"
    by (simp_all add: typingWorld_def c2)
  have stored: "sessionStats (content typingWorld)
      = Some \<lparr>date = 9, words = 100, minutes = 5, sprints = 2, bestSprint = 50\<rparr>"
    and typed: "typingTime (content typingWorld) = Some \<lparr>typingDate = 9, time = 125000\<rparr>"
    by (simp_all add: typingWorld_def exampleStore_def)
  have low: "\<forall>e\<in>set ?low. withinPeak (peakWordCount typingWorld) e"
    by (simp add: peak c1 c2)
  have day: "\<forall>e\<in>set ?high. onDay 9 e"
    by simp
  have typed': "typingTime (content ?w) = Some \<lparr>typingDate = 9, time = 125000\<rparr>"
    by (simp add: onInput_def resetTypingTimeIfNewDay_def Let_def typingWorld_def
          exampleStore_def)
  have roll: "rollSession 9
      (Some \<lparr>date = 9, words = 100, minutes = 5, sprints = 2, bestSprint = 50\<rparr>)
      = \<lparr>date = 9, words = 100, minutes = 5, sprints = 2, bestSprint = 50\<rparr>"
    by (simp add: rollSession_today)
  have mins: "typingMinutes (Some \<lparr>typingDate = 9, time = 125000\<rparr>) = 2"
    by (simp add: typingMinutes_def)
  have high: "sessionStats (content (runEvents ?high typingWorld))
      = Some \<lparr>date = 9, words = 101, minutes = 2, sprints = 2, bestSprint = 50\<rparr>
    \<and> lastSyncedWords (runEvents ?high typingWorld) = 3
    \<and> peakWordCount (runEvents ?high typingWorld) = 3"
    by (simp add: typingWorld_def exampleStore_def onInput_def resetTypingTimeIfNewDay_def
          falsy_def debouncedStatsUpdate_def burstTimerFires_def c1 c2 c3
          transaction_sessionStats transaction_typingTime roll mins Let_def)
  from idle peak synced editor stored low day typed' roll mins high c3 show ?thesis
    using stats_only_above_peak [of "[97, 32, 98, 32, 99]" 7000 9 typingWorld ?low]
      stats_only_above_peak [of "[97]" 0 9 ?w "[]"]
      stats_only_above_peak [of "[97]" 0 9 typingWorld ?high]
    by (simp add: onInput_statsTimer onInput_peak onInput_synced onInput_store)
qed

end
